theory Spec2Isabelle
  imports Main "HOL-Library.Word"
begin

section \<open>JavaScript strings\<close>

text \<open>
  A JavaScript string is a sequence of UTF-16 code units; \<open>s.length\<close> counts code units
  and a regular expression without the \<open>u\<close> flag matches code units. A string is
  therefore a list of 16-bit words. \<open>utf16\<close> writes an ASCII literal as such a list.
\<close>

type_synonym jschar = "16 word"
type_synonym jsstring = "jschar list"

definition utf16 :: "string \<Rightarrow> jsstring" where
  "utf16 s = map of_char s"

text \<open>The character class \<^verbatim>\<open>[\x00-\x1F\x7F-\x9F]\<close> of \<^verbatim>\<open>cleanAndTokenize\<close>.\<close>

definition isControl :: "jschar \<Rightarrow> bool" where
  "isControl c = (c \<le> 0x1F \<or> (0x7F \<le> c \<and> c \<le> 0x9F))"

text \<open>
  The class \<^verbatim>\<open>\s\<close> of a regular expression, which is also what \<^verbatim>\<open>trim()\<close> strips:
  the WhiteSpace code points (TAB, VT, FF, SP, NBSP, ZWNBSP and the category Zs)
  and the LineTerminator code points (LF, CR, LS, PS) of ECMAScript.
\<close>

definition isWhiteSpace :: "jschar \<Rightarrow> bool" where
  "isWhiteSpace c =
     (c = 0x09 \<or> c = 0x0A \<or> c = 0x0B \<or> c = 0x0C \<or> c = 0x0D \<or> c = 0x20 \<or> c = 0xA0 \<or>
      c = 0x1680 \<or> (0x2000 \<le> c \<and> c \<le> 0x200A) \<or> c = 0x2028 \<or> c = 0x2029 \<or>
      c = 0x202F \<or> c = 0x205F \<or> c = 0x3000 \<or> c = 0xFEFF)"

text \<open>\<^verbatim>\<open>String.prototype.trim\<close>: white space is removed from both ends.\<close>

definition trim :: "jsstring \<Rightarrow> jsstring" where
  "trim s = rev (dropWhile isWhiteSpace (rev (dropWhile isWhiteSpace s)))"

text \<open>
  \<^verbatim>\<open>s.split(/\s+/)\<close>. The split algorithm of ECMAScript keeps the start \<open>p\<close> of the
  current piece and a scan position \<open>q\<close>. Where the expression does not match at
  \<open>q\<close>, \<open>q\<close> moves on by one; where it matches, the greedy \<^verbatim>\<open>\s+\<close> consumes the
  whole run of white space, the piece between \<open>p\<close> and \<open>q\<close> is emitted, and both
  positions move behind the run. The piece that is open at the end of the string is
  emitted last, so the empty string splits into one empty piece. In \<open>splitLoop\<close> the
  first argument is the open piece and the second the text from \<open>q\<close> on.
\<close>

function splitLoop :: "jsstring \<Rightarrow> jsstring \<Rightarrow> jsstring list" where
  "splitLoop piece [] = [piece]"
| "splitLoop piece (c # cs) =
     (if isWhiteSpace c then piece # splitLoop [] (dropWhile isWhiteSpace cs)
      else splitLoop (piece @ [c]) cs)"
  by pat_completeness auto
termination
  by (relation "measure (\<lambda>(piece, s). length s)")
     (auto simp: le_imp_less_Suc length_dropWhile_le)

definition splitWhiteSpace :: "jsstring \<Rightarrow> jsstring list" where
  "splitWhiteSpace s = splitLoop [] s"

text \<open>\<^verbatim>\<open>s.endsWith(suffix)\<close>.\<close>

definition endsWith :: "jsstring \<Rightarrow> jsstring \<Rightarrow> bool" where
  "endsWith s suffix =
     (length suffix \<le> length s \<and> drop (length s - length suffix) s = suffix)"

section \<open>The tokenizer (src/utils/tokenizer.js)\<close>

text \<open>
  \<^verbatim>\<open>cleanAndTokenize(raw)\<close>. The argument is \<open>None\<close> for \<^verbatim>\<open>null\<close> or
  \<^verbatim>\<open>undefined\<close>; the guard \<^verbatim>\<open>if (!raw) return []\<close> is taken by these and by the
  empty string. The calls of the logger write to the console only.
\<close>

definition cleanAndTokenize :: "jsstring option \<Rightarrow> jsstring list" where
  "cleanAndTokenize raw =
     (case raw of
        None \<Rightarrow> []
      | Some r \<Rightarrow>
          if r = [] then []
          else
            let text = filter (\<lambda>c. \<not> isControl c) r;
                tokens = splitWhiteSpace (trim text);
                filtered = filter (\<lambda>t. length t > 0) tokens
            in filtered)"

text \<open>\<^verbatim>\<open>getPivotIndex(word)\<close>: a chain of comparisons on \<^verbatim>\<open>word.length\<close>.\<close>

definition getPivotIndex :: "jsstring \<Rightarrow> int" where
  "getPivotIndex word =
     (let len = int (length word) in
      if len = 1 then 0
      else if len \<le> 5 then 1
      else if len \<le> 9 then 2
      else if len \<le> 13 then 3
      else 4)"

section \<open>The reader hook (src/hooks/useReader.js)\<close>

text \<open>
  The state cells of the hook, one field per \<^verbatim>\<open>useState\<close>. Every callback of the hook
  is a function from the state before the call to the state after it. The timer
  handle \<^verbatim>\<open>timeoutRef\<close> and the screen wake lock are effects outside these cells
  and are not part of the record.
\<close>

record reader =
  words :: "jsstring list"
  currentIndex :: int
  isPlaying :: bool
  isReady :: bool
  isFinished :: bool
  wpm :: int
  theme :: jsstring
  fileName :: jsstring

definition DEFAULT_WORDS :: "jsstring list" where
  "DEFAULT_WORDS =
     [utf16 ''welcome'', utf16 ''to'', utf16 ''warp.'', utf16 ''velocity'',
      utf16 ''reading'', utf16 ''system.'', utf16 ''ready?'']"

definition initialReader :: reader where
  "initialReader =
     \<lparr>words = DEFAULT_WORDS, currentIndex = 0, isPlaying = False, isReady = False,
      isFinished = False, wpm = 300, theme = utf16 ''default'', fileName = []\<rparr>"

definition play :: "reader \<Rightarrow> reader" where
  "play s =
     (let s1 = (if currentIndex s \<ge> int (length (words s)) - 1
                then s\<lparr>currentIndex := 0, isFinished := False\<rparr>
                else s)
      in s1\<lparr>isPlaying := True\<rparr>)"

definition pause :: "reader \<Rightarrow> reader" where
  "pause s = s\<lparr>isPlaying := False\<rparr>"

definition togglePlayPause :: "reader \<Rightarrow> reader" where
  "togglePlayPause s = (if isPlaying s then pause s else play s)"

definition restart :: "reader \<Rightarrow> reader" where
  "restart s = pause (s\<lparr>currentIndex := 0, isFinished := False\<rparr>)"

definition back10 :: "reader \<Rightarrow> reader" where
  "back10 s =
     (let newIndex = max 0 (currentIndex s - 10)
      in pause (s\<lparr>currentIndex := newIndex, isFinished := False\<rparr>))"

definition loadText :: "jsstring option \<Rightarrow> reader \<Rightarrow> reader" where
  "loadText text s =
     (let tokenized = cleanAndTokenize text;
          s1 = (if length tokenized = 0
                then s\<lparr>words := [utf16 ''ready'', utf16 ''to'', utf16 ''warp'']\<rparr>
                else s\<lparr>words := tokenized\<rparr>)
      in pause (s1\<lparr>currentIndex := 0, isFinished := False, isReady := True\<rparr>))"

definition clearText :: "reader \<Rightarrow> reader" where
  "clearText s =
     pause (s\<lparr>words := DEFAULT_WORDS, currentIndex := 0, isReady := False,
              isFinished := False, fileName := []\<rparr>)"

definition markTextModified :: "reader \<Rightarrow> reader" where
  "markTextModified s = s\<lparr>isReady := False\<rparr>"

definition setWpm :: "int \<Rightarrow> reader \<Rightarrow> reader" where
  "setWpm w s = s\<lparr>wpm := w\<rparr>"

text \<open>
  The playback effect. \<open>runLoop\<close> is the timer callback; the effect arms the timer
  only when \<^verbatim>\<open>isPlaying\<close> holds (\<^verbatim>\<open>if (!isPlaying) return\<close>), so a tick of the
  scheduler is \<open>runLoop\<close> under that guard.
\<close>

definition runLoop :: "reader \<Rightarrow> reader" where
  "runLoop s =
     (let prevIndex = currentIndex s;
          nextIndex = prevIndex + 1
      in if nextIndex \<ge> int (length (words s))
         then s\<lparr>isPlaying := False, isFinished := True,
                 currentIndex := int (length (words s)) - 1\<rparr>
         else s\<lparr>currentIndex := nextIndex\<rparr>)"

definition tick :: "reader \<Rightarrow> reader" where
  "tick s = (if \<not> isPlaying s then s else runLoop s)"

section \<open>The file processor and the application component\<close>

text \<open>
  \<^verbatim>\<open>processFile\<close> of the file processor chooses an extractor by the suffix of the
  lower-cased file name. The extractors call pdf.js, mammoth and the browser's
  \<^verbatim>\<open>FileReader\<close>; each either yields the text or throws an \<^verbatim>\<open>Error\<close>. They, and
  \<^verbatim>\<open>String.prototype.toLowerCase\<close>, are parameters of the model.
\<close>

datatype error = Error (message: jsstring)

record jsFile =
  name :: jsstring
  content :: "8 word list"

record platform =
  toLowerCase :: "jsstring \<Rightarrow> jsstring"
  processPDF :: "jsFile \<Rightarrow> error + jsstring"
  processDOCX :: "jsFile \<Rightarrow> error + jsstring"
  processTXT :: "jsFile \<Rightarrow> error + jsstring"

definition processFile :: "platform \<Rightarrow> jsFile \<Rightarrow> error + jsstring" where
  "processFile K file =
     (let fileName = toLowerCase K (name file)
      in if endsWith fileName (utf16 ''.pdf'') then processPDF K file
         else if endsWith fileName (utf16 ''.docx'') then processDOCX K file
         else if endsWith fileName (utf16 ''.txt'') then processTXT K file
         else processTXT K file)"

definition setLoadedFileName :: "platform \<Rightarrow> jsstring \<Rightarrow> reader \<Rightarrow> reader" where
  "setLoadedFileName K n s = s\<lparr>fileName := toLowerCase K n\<rparr>"

text \<open>
  The state of the \<^verbatim>\<open>App\<close> component: the cells of the hook and the content of the
  text area. \<^verbatim>\<open>handleFileSelect\<close> awaits \<^verbatim>\<open>processFile\<close> inside \<^verbatim>\<open>try\<close>; the
  \<^verbatim>\<open>catch\<close> branch passes a fixed label and the message of the error to
  \<^verbatim>\<open>logger.error\<close> and returns normally. The second component of the result is
  what was passed to \<^verbatim>\<open>logger.error\<close>, if anything.
\<close>

record app =
  readerState :: reader
  textContent :: jsstring

definition handleFileSelect :: "platform \<Rightarrow> jsFile \<Rightarrow> app \<Rightarrow> app \<times> jsstring list option" where
  "handleFileSelect K file a =
     (case processFile K file of
        Inr text \<Rightarrow>
          (a\<lparr>textContent := text,
             readerState := loadText (Some text) (setLoadedFileName K (name file) (readerState a))\<rparr>,
           None)
      | Inl error \<Rightarrow> (a, Some [utf16 ''File processing failed:'', message error]))"

section \<open>Notions of the specification\<close>

text \<open>
  The position invariant of the playback state: the position is an index of a
  non-empty word sequence, and a finished state stands on the last word.
\<close>

definition positionInvariant :: "reader \<Rightarrow> bool" where
  "positionInvariant s =
     ((words s \<noteq> [] \<longrightarrow> 0 \<le> currentIndex s \<and> currentIndex s < int (length (words s))) \<and>
      (isFinished s \<longrightarrow> currentIndex s = int (length (words s)) - 1))"

text \<open>Joining tokens by single spaces, as \<^verbatim>\<open>tokens.join(' ')\<close> does.\<close>

fun joinSpace :: "jsstring list \<Rightarrow> jsstring" where
  "joinSpace [] = []"
| "joinSpace [t] = t"
| "joinSpace (t # u # ts) = t @ [0x20] @ joinSpace (u # ts)"

text \<open>A word token: not empty, no white space, no control character.\<close>

definition isToken :: "jsstring \<Rightarrow> bool" where
  "isToken t = (t \<noteq> [] \<and> list_all (\<lambda>c. \<not> isWhiteSpace c \<and> \<not> isControl c) t)"

section \<open>Example inputs\<close>

definition twoWords :: reader where
  "twoWords = loadText (Some (utf16 ''hello world'')) initialReader"

definition oneWord :: reader where
  "oneWord = loadText (Some (utf16 ''warp'')) initialReader"

text \<open>
  A platform on which reading a PDF always throws, and a file that is sent to the
  PDF extractor.
\<close>

definition asciiLower :: "jsstring \<Rightarrow> jsstring" where
  "asciiLower s = map (\<lambda>c. if 0x41 \<le> c \<and> c \<le> 0x5A then c + 0x20 else c) s"

definition brokenPdfPlatform :: platform where
  "brokenPdfPlatform =
     \<lparr>toLowerCase = asciiLower,
      processPDF = (\<lambda>f. Inl (Error (utf16 ''Error reading PDF file''))),
      processDOCX = (\<lambda>f. Inr []),
      processTXT = (\<lambda>f. Inr (map ucast (content f)))\<rparr>"

definition brokenFile :: jsFile where
  "brokenFile = \<lparr>name = utf16 ''Book.PDF'', content = [0x25, 0x50]\<rparr>"

section \<open>Properties of the pivot index\<close>

text \<open>
  Claim C5. For a non-empty word the pivot index depends on the length of the word
  alone and follows the table: length 1 gives 0, lengths 2 to 5 give 1, lengths 6 to
  9 give 2, lengths 10 to 13 give 3 and every length from 14 on gives 4. The result
  lies between 0 and 4, and the five example words have the pivots 0, 1, 2, 3 and 4.
\<close>

theorem getPivotIndex_table:
  assumes "word \<noteq> []"
  shows "(length word = 1 \<longrightarrow> getPivotIndex word = 0) \<and>
         (2 \<le> length word \<and> length word \<le> 5 \<longrightarrow> getPivotIndex word = 1) \<and>
         (6 \<le> length word \<and> length word \<le> 9 \<longrightarrow> getPivotIndex word = 2) \<and>
         (10 \<le> length word \<and> length word \<le> 13 \<longrightarrow> getPivotIndex word = 3) \<and>
         (14 \<le> length word \<longrightarrow> getPivotIndex word = 4) \<and>
         0 \<le> getPivotIndex word \<and> getPivotIndex word \<le> 4 \<and>
         (\<forall>other. length other = length word \<longrightarrow> getPivotIndex other = getPivotIndex word) \<and>
         getPivotIndex (utf16 ''a'') = 0 \<and>
         getPivotIndex (utf16 ''warp'') = 1 \<and>
         getPivotIndex (utf16 ''velocity'') = 2 \<and>
         getPivotIndex (utf16 ''information'') = 3 \<and>
         getPivotIndex (utf16 ''internationalization'') = 4"
  using assms by (simp add: getPivotIndex_def Let_def utf16_def)

theorem getPivotIndex_table_witness:
  "utf16 ''velocity'' \<noteq> [] \<and> length (utf16 ''velocity'') = 8 \<and>
   getPivotIndex (utf16 ''velocity'') = 2 \<and>
   getPivotIndex (utf16 ''warp'') = 1"
  using getPivotIndex_table [of "utf16 ''velocity''"] by (simp add: utf16_def)

text \<open>
  Claim C10. The pivot index is defined for every string, the empty one included:
  for the empty string it is 1, the value of the lengths 2 to 5, and every result is
  one of 0, 1, 2, 3, 4. The function has no failing branch.
\<close>

theorem getPivotIndex_total:
  "getPivotIndex [] = 1 \<and>
   (\<forall>word. getPivotIndex word \<in> {0, 1, 2, 3, 4}) \<and>
   (\<forall>word. 2 \<le> length word \<and> length word \<le> 5 \<longrightarrow> getPivotIndex word = getPivotIndex [])"
  by (simp add: getPivotIndex_def Let_def)

theorem getPivotIndex_total_witness:
  "getPivotIndex [] = 1 \<and> getPivotIndex (utf16 ''warp'') = getPivotIndex [] \<and>
   getPivotIndex (utf16 ''warp'') \<in> {0, 1, 2, 3, 4}"
  using getPivotIndex_total by (simp add: utf16_def)

section \<open>Properties of the tokenizer\<close>

lemma cleanAndTokenize_None: "cleanAndTokenize None = []"
  by (simp add: cleanAndTokenize_def)

lemma cleanAndTokenize_empty: "cleanAndTokenize (Some []) = []"
  by (simp add: cleanAndTokenize_def)

text \<open>A text of white space only has no tokens.\<close>

lemma cleanAndTokenize_blank:
  assumes "\<forall>c \<in> set r. isWhiteSpace c"
  shows "cleanAndTokenize (Some r) = []"
proof -
  let ?text = "filter (\<lambda>c. \<not> isControl c) r"
  from assms have "\<forall>c \<in> set ?text. isWhiteSpace c" by simp
  then have d: "dropWhile isWhiteSpace ?text = []" by simp
  have "trim ?text = []" unfolding trim_def d by simp
  then show ?thesis
    by (simp add: cleanAndTokenize_def splitWhiteSpace_def Let_def)
qed

text \<open>
  Splitting and trimming lose white space only: the pieces, put together again, are
  the text without its white space.
\<close>

lemma filter_dropWhile_neg:
  "filter (\<lambda>c. \<not> P c) (dropWhile P xs) = filter (\<lambda>c. \<not> P c) xs"
  by (induction xs) simp_all

lemma filter_trim:
  "filter (\<lambda>c. \<not> isWhiteSpace c) (trim s) = filter (\<lambda>c. \<not> isWhiteSpace c) s"
proof -
  have "filter (\<lambda>c. \<not> isWhiteSpace c) (trim s)
        = rev (filter (\<lambda>c. \<not> isWhiteSpace c)
            (dropWhile isWhiteSpace (rev (dropWhile isWhiteSpace s))))"
    by (simp add: trim_def rev_filter)
  also have "\<dots> = rev (filter (\<lambda>c. \<not> isWhiteSpace c) (rev (dropWhile isWhiteSpace s)))"
    by (simp only: filter_dropWhile_neg)
  also have "\<dots> = filter (\<lambda>c. \<not> isWhiteSpace c) (dropWhile isWhiteSpace s)"
    by (simp add: rev_filter)
  also have "\<dots> = filter (\<lambda>c. \<not> isWhiteSpace c) s"
    by (simp only: filter_dropWhile_neg)
  finally show ?thesis .
qed

lemma concat_splitLoop:
  "concat (splitLoop piece s) = piece @ filter (\<lambda>c. \<not> isWhiteSpace c) s"
  by (induction piece s rule: splitLoop.induct) (simp_all add: filter_dropWhile_neg)

lemma concat_nonempty: "concat (filter (\<lambda>t. t \<noteq> []) ts) = concat ts"
  by (induction ts) simp_all

lemma concat_cleanAndTokenize:
  "concat (cleanAndTokenize (Some r)) =
     filter (\<lambda>c. \<not> isControl c \<and> \<not> isWhiteSpace c) r"
  by (simp add: cleanAndTokenize_def Let_def splitWhiteSpace_def concat_nonempty
      concat_splitLoop filter_trim conj_commute)

lemma cleanAndTokenize_nonempty: "t \<in> set (cleanAndTokenize raw) \<Longrightarrow> t \<noteq> []"
  by (auto simp: cleanAndTokenize_def Let_def split: option.splits if_splits)

lemma cleanAndTokenize_chars:
  assumes "t \<in> set (cleanAndTokenize raw)" and "c \<in> set t"
  shows "\<not> isWhiteSpace c \<and> \<not> isControl c"
proof (cases raw)
  case None
  with assms show ?thesis by (simp add: cleanAndTokenize_def)
next
  case (Some r)
  from assms have "c \<in> set (concat (cleanAndTokenize raw))" by auto
  with Some show ?thesis by (simp add: concat_cleanAndTokenize)
qed

lemma cleanAndTokenize_isToken: "t \<in> set (cleanAndTokenize raw) \<Longrightarrow> isToken t"
  using cleanAndTokenize_nonempty cleanAndTokenize_chars
  by (auto simp: isToken_def list_all_iff)

text \<open>A stretch without white space is scanned into the open piece.\<close>

lemma splitLoop_append:
  "list_all (\<lambda>c. \<not> isWhiteSpace c) t \<Longrightarrow>
     splitLoop piece (t @ rest) = splitLoop (piece @ t) rest"
  by (induction t arbitrary: piece) simp_all

text \<open>
  The split cuts at every run of white space: a text without white space is one
  piece, and a stretch without white space that is followed by a run of white space
  is the first piece, the run is dropped whole, and the split goes on behind it.
\<close>

lemma splitWhiteSpace_no_space:
  "list_all (\<lambda>c. \<not> isWhiteSpace c) t \<Longrightarrow> splitWhiteSpace t = [t]"
  using splitLoop_append [of t "[]" "[]"] by (simp add: splitWhiteSpace_def)

lemma dropWhile_run: "list_all P w \<Longrightarrow> dropWhile P (w @ rest) = dropWhile P rest"
  by (induction w) simp_all

lemma splitWhiteSpace_run:
  assumes "list_all (\<lambda>c. \<not> isWhiteSpace c) t"
    and "w \<noteq> []" and "list_all isWhiteSpace w"
    and "dropWhile isWhiteSpace rest = rest"
  shows "splitWhiteSpace (t @ w @ rest) = t # splitWhiteSpace rest"
proof -
  from assms(2) obtain c w' where w: "w = c # w'" by (cases w) auto
  with assms(3) have c: "isWhiteSpace c" and w': "list_all isWhiteSpace w'" by simp_all
  have "splitLoop [] (t @ w @ rest) = splitLoop t (c # w' @ rest)"
    using splitLoop_append [OF assms(1), of "[]" "w @ rest"] w by simp
  also have "\<dots> = t # splitLoop [] (dropWhile isWhiteSpace (w' @ rest))"
    using c by simp
  also have "dropWhile isWhiteSpace (w' @ rest) = rest"
    using dropWhile_run [OF w', of rest] assms(4) by simp
  finally show ?thesis by (simp add: splitWhiteSpace_def)
qed

text \<open>
  Claim C6. The claim has the tokenizer split a raw input at every run of white
  space, and the comment of the source says the same: "Split on any whitespace
  (spaces, tabs, newlines)". The code does not: TAB, LF, VT, FF and CR are white
  space, but they lie in the range \<open>0x00\<close> to \<open>0x1F\<close> that is deleted before the
  split, so a run of them separates nothing and the words around it are glued
  together. The input \<open>a\<close>, LF, \<open>b\<close> gives the one token \<open>ab\<close>, where a space in
  the place of the line feed gives \<open>a\<close> and \<open>b\<close>; the two lines \<open>line one\<close> and
  \<open>line two\<close>, separated by CR LF, give \<open>line\<close>, \<open>oneline\<close>, \<open>two\<close>.
\<close>

theorem cleanAndTokenize_glues_lines:
  "isWhiteSpace 0x0A \<and> isControl 0x0A \<and>
   cleanAndTokenize (Some [0x61, 0x0A, 0x62]) = [[0x61, 0x62]] \<and>
   cleanAndTokenize (Some [0x61, 0x20, 0x62]) = [[0x61], [0x62]] \<and>
   cleanAndTokenize (Some (utf16 ''line one'' @ [0x0D, 0x0A] @ utf16 ''line two''))
     = [utf16 ''line'', utf16 ''oneline'', utf16 ''two'']"
  by (simp add: cleanAndTokenize_def splitWhiteSpace_def trim_def isWhiteSpace_def
      isControl_def utf16_def)

text \<open>
  On inputs whose white space is not in the deleted ranges the tokenizer does what
  the claim says.
\<close>

lemma cleanAndTokenize_hello_world:
  "cleanAndTokenize (Some (utf16 ''  hello   world  '')) = [utf16 ''hello'', utf16 ''world'']"
  by (simp add: cleanAndTokenize_def splitWhiteSpace_def trim_def isWhiteSpace_def
      isControl_def utf16_def)

subsection \<open>Tokenizing the joined tokens\<close>

lemma isWhiteSpace_space: "isWhiteSpace 0x20"
  by (simp add: isWhiteSpace_def)

lemma not_isControl_space: "\<not> isControl 0x20"
  by (simp add: isControl_def)

lemma isToken_no_space: "isToken t \<Longrightarrow> list_all (\<lambda>c. \<not> isWhiteSpace c) t"
  by (simp add: isToken_def list_all_iff)

lemma isToken_hd: "isToken t \<Longrightarrow> \<exists>c cs. t = c # cs \<and> \<not> isWhiteSpace c"
  by (cases t) (simp_all add: isToken_def)

lemma isToken_last: "isToken t \<Longrightarrow> \<not> isWhiteSpace (last t)"
  by (cases t rule: rev_cases) (simp_all add: isToken_def)

text \<open>The joined tokens begin and end with a character of a token.\<close>

lemma joinSpace_hd:
  "ts \<noteq> [] \<Longrightarrow> list_all isToken ts \<Longrightarrow>
     \<exists>c cs. joinSpace ts = c # cs \<and> \<not> isWhiteSpace c"
proof (induction ts rule: joinSpace.induct)
  case 1
  then show ?case by simp
next
  case (2 t)
  then show ?case using isToken_hd [of t] by simp
next
  case (3 t u ts)
  then have "isToken t" by simp
  then obtain c cs where "t = c # cs" "\<not> isWhiteSpace c" using isToken_hd by blast
  then show ?case by simp
qed

lemma joinSpace_last:
  "ts \<noteq> [] \<Longrightarrow> list_all isToken ts \<Longrightarrow>
     joinSpace ts \<noteq> [] \<and> \<not> isWhiteSpace (last (joinSpace ts))"
proof (induction ts rule: joinSpace.induct)
  case 1
  then show ?case by simp
next
  case (2 t)
  then show ?case using isToken_last [of t] by (simp add: isToken_def)
next
  case (3 t u ts)
  then have "joinSpace (u # ts) \<noteq> [] \<and> \<not> isWhiteSpace (last (joinSpace (u # ts)))"
    by simp
  then show ?case by simp
qed

lemma filter_control_joinSpace:
  "list_all isToken ts \<Longrightarrow> filter (\<lambda>c. \<not> isControl c) (joinSpace ts) = joinSpace ts"
  by (induction ts rule: joinSpace.induct)
     (simp_all add: isToken_def list_all_iff not_isControl_space)

lemma dropWhile_rev_last:
  "xs \<noteq> [] \<Longrightarrow> \<not> P (last xs) \<Longrightarrow> dropWhile P (rev xs) = rev xs"
  by (cases xs rule: rev_cases) simp_all

lemma trim_joinSpace:
  assumes "list_all isToken ts"
  shows "trim (joinSpace ts) = joinSpace ts"
proof (cases "ts = []")
  case True
  then show ?thesis by (simp add: trim_def)
next
  case False
  with assms obtain c cs where "joinSpace ts = c # cs" "\<not> isWhiteSpace c"
    using joinSpace_hd by blast
  then have front: "dropWhile isWhiteSpace (joinSpace ts) = joinSpace ts" by simp
  from False assms have "joinSpace ts \<noteq> []" "\<not> isWhiteSpace (last (joinSpace ts))"
    using joinSpace_last by blast+
  then have "dropWhile isWhiteSpace (rev (joinSpace ts)) = rev (joinSpace ts)"
    by (rule dropWhile_rev_last)
  with front show ?thesis by (simp add: trim_def)
qed

lemma splitLoop_joinSpace:
  "ts \<noteq> [] \<Longrightarrow> list_all isToken ts \<Longrightarrow> splitLoop [] (joinSpace ts) = ts"
proof (induction ts rule: joinSpace.induct)
  case 1
  then show ?case by simp
next
  case (2 t)
  then have "list_all (\<lambda>c. \<not> isWhiteSpace c) t" by (simp add: isToken_no_space)
  from splitLoop_append [OF this, of "[]" "[]"] show ?case by simp
next
  case (3 t u ts)
  then have t: "list_all (\<lambda>c. \<not> isWhiteSpace c) t" by (simp add: isToken_no_space)
  from 3 have rest: "list_all isToken (u # ts)" by simp
  then obtain c cs where j: "joinSpace (u # ts) = c # cs" "\<not> isWhiteSpace c"
    using joinSpace_hd [of "u # ts"] by blast
  have "splitLoop [] (joinSpace (t # u # ts)) = splitLoop t (0x20 # joinSpace (u # ts))"
    using splitLoop_append [OF t, of "[]" "0x20 # joinSpace (u # ts)"] by simp
  also have "\<dots> = t # splitLoop [] (dropWhile isWhiteSpace (joinSpace (u # ts)))"
    by (simp add: isWhiteSpace_space)
  also have "dropWhile isWhiteSpace (joinSpace (u # ts)) = joinSpace (u # ts)"
    using j by simp
  also have "splitLoop [] (joinSpace (u # ts)) = u # ts"
    using 3 rest by simp
  finally show ?case .
qed

lemma cleanAndTokenize_joinSpace:
  assumes "list_all isToken ts"
  shows "cleanAndTokenize (Some (joinSpace ts)) = ts"
proof (cases "ts = []")
  case True
  then show ?thesis by (simp add: cleanAndTokenize_def)
next
  case False
  with assms have ne: "joinSpace ts \<noteq> []" using joinSpace_last by blast
  have keep: "filter (\<lambda>t. t \<noteq> []) ts = ts"
    using assms by (simp add: list_all_iff isToken_def)
  show ?thesis
    using ne False assms
    by (simp add: cleanAndTokenize_def Let_def splitWhiteSpace_def filter_control_joinSpace
        trim_joinSpace splitLoop_joinSpace keep)
qed

text \<open>
  Claim C7. The tokenizer is idempotent on its output: for every input \<open>x\<close>, absent
  or not, joining the tokens of \<open>x\<close> by single spaces and tokenizing the result gives
  the tokens of \<open>x\<close> again.
\<close>

theorem cleanAndTokenize_idempotent:
  "cleanAndTokenize (Some (joinSpace (cleanAndTokenize x))) = cleanAndTokenize x"
  by (rule cleanAndTokenize_joinSpace) (simp add: list_all_iff cleanAndTokenize_isToken)

theorem cleanAndTokenize_idempotent_witness:
  "cleanAndTokenize (Some (utf16 ''  hello   world  '')) = [utf16 ''hello'', utf16 ''world''] \<and>
   joinSpace (cleanAndTokenize (Some (utf16 ''  hello   world  ''))) = utf16 ''hello world'' \<and>
   cleanAndTokenize (Some (utf16 ''hello world'')) = [utf16 ''hello'', utf16 ''world'']"
  using cleanAndTokenize_idempotent [of "Some (utf16 ''  hello   world  '')"]
  by (simp add: cleanAndTokenize_def splitWhiteSpace_def trim_def isWhiteSpace_def
      isControl_def utf16_def)

section \<open>Properties of the playback state machine\<close>

lemmas reader_defs = play_def pause_def tick_def runLoop_def back10_def restart_def
  togglePlayPause_def initialReader_def DEFAULT_WORDS_def Let_def

lemma twoWords_eq:
  "twoWords = initialReader\<lparr>words := [utf16 ''hello'', utf16 ''world''], isReady := True\<rparr>"
  by (simp add: twoWords_def loadText_def pause_def initialReader_def cleanAndTokenize_def
      splitWhiteSpace_def trim_def isWhiteSpace_def isControl_def utf16_def Let_def)

lemma oneWord_eq:
  "oneWord = initialReader\<lparr>words := [utf16 ''warp''], isReady := True\<rparr>"
  by (simp add: oneWord_def loadText_def pause_def initialReader_def cleanAndTokenize_def
      splitWhiteSpace_def trim_def isWhiteSpace_def isControl_def utf16_def Let_def)

text \<open>
  Claim C1. In a state that is playing, a tick of the scheduler moves the position on
  by one and leaves the rest of the state alone; where the position moved on would
  lie behind the last index, the position becomes the last index instead, the
  finished flag is set and the playing flag is cleared. A state that is not playing
  receives no tick. For a sequence of one word at position 0, the first tick after
  \<open>play\<close> ends finished, at position 0 and not playing.
\<close>

theorem tick_advances_or_finishes:
  "(isPlaying s \<and> currentIndex s + 1 \<le> int (length (words s)) - 1 \<longrightarrow>
      tick s = s\<lparr>currentIndex := currentIndex s + 1\<rparr>) \<and>
   (isPlaying s \<and> currentIndex s + 1 > int (length (words s)) - 1 \<longrightarrow>
      tick s = s\<lparr>currentIndex := int (length (words s)) - 1, isFinished := True,
                 isPlaying := False\<rparr>) \<and>
   (\<not> isPlaying s \<longrightarrow> tick s = s) \<and>
   (length (words s) = 1 \<and> currentIndex s = 0 \<longrightarrow>
      tick (play s) = s\<lparr>currentIndex := 0, isFinished := True, isPlaying := False\<rparr>)"
  by (simp add: tick_def runLoop_def play_def Let_def)

theorem tick_advances_or_finishes_witness:
  "isPlaying (play twoWords) \<and>
   tick (play twoWords) = twoWords\<lparr>currentIndex := 1, isPlaying := True\<rparr> \<and>
   tick (tick (play twoWords)) = twoWords\<lparr>currentIndex := 1, isFinished := True\<rparr> \<and>
   length (words oneWord) = 1 \<and> currentIndex oneWord = 0 \<and>
   tick (play oneWord) = oneWord\<lparr>currentIndex := 0, isFinished := True, isPlaying := False\<rparr>"
  using tick_advances_or_finishes [of "play twoWords"]
    tick_advances_or_finishes [of "tick (play twoWords)"]
    tick_advances_or_finishes [of oneWord]
  by (simp add: twoWords_eq oneWord_eq reader_defs)

subsection \<open>The position invariant\<close>

lemma inv_initialReader: "positionInvariant initialReader"
  by (simp add: positionInvariant_def initialReader_def DEFAULT_WORDS_def)

lemma inv_play: "positionInvariant s \<Longrightarrow> positionInvariant (play s)"
  by (auto simp: positionInvariant_def play_def Let_def)

lemma inv_pause: "positionInvariant s \<Longrightarrow> positionInvariant (pause s)"
  by (simp add: positionInvariant_def pause_def)

lemma inv_togglePlayPause: "positionInvariant s \<Longrightarrow> positionInvariant (togglePlayPause s)"
  by (simp add: togglePlayPause_def inv_play inv_pause)

lemma inv_restart: "positionInvariant s \<Longrightarrow> positionInvariant (restart s)"
  by (simp add: positionInvariant_def restart_def pause_def)

lemma inv_back10: "positionInvariant s \<Longrightarrow> positionInvariant (back10 s)"
  by (auto simp: positionInvariant_def back10_def pause_def Let_def)

text \<open>Loading and clearing install a non-empty sequence at position 0, whatever came before.\<close>

lemma inv_loadText: "positionInvariant (loadText text s)"
  by (simp add: positionInvariant_def loadText_def pause_def Let_def)

lemma inv_clearText: "positionInvariant (clearText s)"
  by (simp add: positionInvariant_def clearText_def pause_def DEFAULT_WORDS_def)

lemma inv_setWpm: "positionInvariant s \<Longrightarrow> positionInvariant (setWpm w s)"
  by (simp add: positionInvariant_def setWpm_def)

lemma inv_markTextModified: "positionInvariant s \<Longrightarrow> positionInvariant (markTextModified s)"
  by (simp add: positionInvariant_def markTextModified_def)

lemma inv_tick: "positionInvariant s \<Longrightarrow> positionInvariant (tick s)"
  by (auto simp: positionInvariant_def tick_def runLoop_def Let_def)

text \<open>
  Claim C2. Every transition of the playback state machine (\<open>play\<close>, \<open>pause\<close>,
  \<open>togglePlayPause\<close>, \<open>restart\<close>, \<open>back10\<close>, \<open>loadText\<close>, \<open>clearText\<close>, \<open>setWpm\<close>,
  \<open>markTextModified\<close> and the tick of the scheduler) preserves the invariant: with a
  non-empty word sequence the position is at least 0 and below the length of the
  sequence, and a finished state has its position on the last index.
\<close>

theorem transitions_preserve_invariant:
  assumes "positionInvariant s"
  shows "positionInvariant (play s) \<and> positionInvariant (pause s) \<and>
         positionInvariant (togglePlayPause s) \<and> positionInvariant (restart s) \<and>
         positionInvariant (back10 s) \<and> (\<forall>text. positionInvariant (loadText text s)) \<and>
         positionInvariant (clearText s) \<and> (\<forall>w. positionInvariant (setWpm w s)) \<and>
         positionInvariant (markTextModified s) \<and> positionInvariant (tick s)"
  using assms
  by (simp add: inv_play inv_pause inv_togglePlayPause inv_restart inv_back10 inv_loadText
      inv_clearText inv_setWpm inv_markTextModified inv_tick)

theorem transitions_preserve_invariant_witness:
  "positionInvariant initialReader \<and> positionInvariant (play initialReader) \<and>
   positionInvariant (tick (play initialReader)) \<and>
   positionInvariant (back10 (tick (play initialReader))) \<and>
   currentIndex (tick (play initialReader)) = 1"
  using transitions_preserve_invariant [OF inv_initialReader]
    transitions_preserve_invariant [OF inv_play [OF inv_initialReader]]
    transitions_preserve_invariant [OF inv_tick [OF inv_play [OF inv_initialReader]]]
  by (simp add: inv_initialReader reader_defs)

text \<open>
  Claim C3. In a state whose position is the last index, and so in every finished
  state that satisfies the position invariant, \<open>play\<close> puts the position back to 0,
  clears the finished flag and sets the playing flag. In a state whose position lies
  before the last index, \<open>play\<close> sets the playing flag and changes nothing else.
\<close>

theorem play_resets_at_end:
  "(currentIndex s = int (length (words s)) - 1 \<longrightarrow>
      play s = s\<lparr>currentIndex := 0, isFinished := False, isPlaying := True\<rparr>) \<and>
   (positionInvariant s \<and> isFinished s \<longrightarrow>
      play s = s\<lparr>currentIndex := 0, isFinished := False, isPlaying := True\<rparr>) \<and>
   (currentIndex s < int (length (words s)) - 1 \<longrightarrow>
      play s = s\<lparr>isPlaying := True\<rparr> \<and> currentIndex (play s) = currentIndex s \<and>
      isPlaying (play s))"
  by (simp add: play_def positionInvariant_def Let_def)

theorem play_resets_at_end_witness:
  "currentIndex (tick (tick (play twoWords)))
     = int (length (words (tick (tick (play twoWords))))) - 1 \<and>
   isFinished (tick (tick (play twoWords))) \<and>
   positionInvariant (tick (tick (play twoWords))) \<and>
   play (tick (tick (play twoWords))) = twoWords\<lparr>isPlaying := True\<rparr> \<and>
   currentIndex initialReader < int (length (words initialReader)) - 1 \<and>
   play initialReader = initialReader\<lparr>isPlaying := True\<rparr>"
  using play_resets_at_end [of "tick (tick (play twoWords))"]
    play_resets_at_end [of initialReader]
  by (simp add: twoWords_eq reader_defs positionInvariant_def)

text \<open>
  Claim C4. Loading a text whose tokenization is empty (the empty string, an absent
  text, a text of white space only) is no error: the word sequence becomes the
  fallback \<open>ready\<close>, \<open>to\<close>, \<open>warp\<close>, the position 0, the finished flag false, the ready
  flag true and the playing flag false. Loading a text with tokens installs these
  tokens, with the same resets.
\<close>

theorem loadText_fallback:
  "(cleanAndTokenize text = [] \<longrightarrow>
      loadText text s =
        s\<lparr>words := [utf16 ''ready'', utf16 ''to'', utf16 ''warp''], currentIndex := 0,
          isFinished := False, isReady := True, isPlaying := False\<rparr>) \<and>
   (cleanAndTokenize text \<noteq> [] \<longrightarrow>
      loadText text s =
        s\<lparr>words := cleanAndTokenize text, currentIndex := 0,
          isFinished := False, isReady := True, isPlaying := False\<rparr>) \<and>
   cleanAndTokenize None = [] \<and> cleanAndTokenize (Some []) = [] \<and>
   (\<forall>r. (\<forall>c \<in> set r. isWhiteSpace c) \<longrightarrow> cleanAndTokenize (Some r) = [])"
  by (simp add: loadText_def pause_def Let_def cleanAndTokenize_None cleanAndTokenize_empty
      cleanAndTokenize_blank)

theorem loadText_fallback_witness:
  "cleanAndTokenize (Some (utf16 ''   '')) = [] \<and>
   loadText (Some (utf16 ''   '')) (tick (play twoWords)) =
     twoWords\<lparr>words := [utf16 ''ready'', utf16 ''to'', utf16 ''warp'']\<rparr> \<and>
   cleanAndTokenize (Some (utf16 ''hello world'')) \<noteq> [] \<and>
   loadText (Some (utf16 ''hello world'')) (tick (play oneWord)) = twoWords"
  using loadText_fallback [of "Some (utf16 ''   '')" "tick (play twoWords)"]
    loadText_fallback [of "Some (utf16 ''hello world'')" "tick (play oneWord)"]
  by (simp add: twoWords_eq oneWord_eq reader_defs cleanAndTokenize_def
      splitWhiteSpace_def trim_def isWhiteSpace_def isControl_def utf16_def)

text \<open>
  Claim C8. In every state, \<open>back10\<close> sets the position to the larger of 0 and the
  position minus 10, so never below 0 (from position 3 to position 0), clears the
  finished flag and, whatever the state was, ends not playing.
\<close>

theorem back10_clamps:
  "back10 s = s\<lparr>currentIndex := max 0 (currentIndex s - 10), isFinished := False,
               isPlaying := False\<rparr> \<and>
   0 \<le> currentIndex (back10 s) \<and> \<not> isPlaying (back10 s) \<and> \<not> isFinished (back10 s) \<and>
   currentIndex (back10 (s\<lparr>currentIndex := 3\<rparr>)) = 0"
  by (simp add: back10_def pause_def Let_def)

theorem back10_clamps_witness:
  "currentIndex (tick (tick (tick (play initialReader)))) = 3 \<and>
   isPlaying (tick (tick (tick (play initialReader)))) \<and>
   back10 (tick (tick (tick (play initialReader)))) = initialReader"
  using back10_clamps [of "tick (tick (tick (play initialReader)))"]
  by (simp add: reader_defs)

section \<open>Failure of the text extraction\<close>

lemma processFile_brokenFile:
  "processFile brokenPdfPlatform brokenFile = Inl (Error (utf16 ''Error reading PDF file''))"
  by (simp add: processFile_def brokenPdfPlatform_def brokenFile_def asciiLower_def
      endsWith_def utf16_def Let_def)

text \<open>
  Claim C9. When the extraction of the text of a file fails, the file selection of
  the application reports the failure (the message of the error goes to the error
  log and the handler returns normally) and leaves the whole session as it was: the
  word sequence, the position, the playing, finished and ready flags, the rate, the
  file name and the content of the text area are those from before.
\<close>

theorem handleFileSelect_failure:
  assumes "processFile K file = Inl e"
  shows "handleFileSelect K file a = (a, Some [utf16 ''File processing failed:'', message e]) \<and>
         words (readerState (fst (handleFileSelect K file a))) = words (readerState a) \<and>
         currentIndex (readerState (fst (handleFileSelect K file a)))
           = currentIndex (readerState a) \<and>
         isPlaying (readerState (fst (handleFileSelect K file a))) = isPlaying (readerState a) \<and>
         isFinished (readerState (fst (handleFileSelect K file a)))
           = isFinished (readerState a) \<and>
         isReady (readerState (fst (handleFileSelect K file a))) = isReady (readerState a) \<and>
         wpm (readerState (fst (handleFileSelect K file a))) = wpm (readerState a) \<and>
         fileName (readerState (fst (handleFileSelect K file a))) = fileName (readerState a) \<and>
         textContent (fst (handleFileSelect K file a)) = textContent a"
  using assms by (simp add: handleFileSelect_def)

theorem handleFileSelect_failure_witness:
  "processFile brokenPdfPlatform brokenFile = Inl (Error (utf16 ''Error reading PDF file'')) \<and>
   handleFileSelect brokenPdfPlatform brokenFile
       \<lparr>readerState = twoWords, textContent = utf16 ''hello world''\<rparr>
     = (\<lparr>readerState = twoWords, textContent = utf16 ''hello world''\<rparr>,
        Some [utf16 ''File processing failed:'', utf16 ''Error reading PDF file''])"
  using handleFileSelect_failure [OF processFile_brokenFile,
      of "\<lparr>readerState = twoWords, textContent = utf16 ''hello world''\<rparr>"]
  by (simp add: processFile_brokenFile)

end
